theory Spec2Isabelle
  imports Complex_Main
begin

unbundle bit_operations_syntax

section \<open>Values of the wire format as the node sees them\<close>

text \<open>
  The node (\<^verbatim>\<open>src/haptic/main.py\<close>, MicroPython) hands every datagram to
  \<^verbatim>\<open>ujson.loads\<close> and then works on the decoded value. A datagram is therefore
  represented by what \<^verbatim>\<open>ujson.loads\<close> makes of it: \<open>None\<close> when the parser
  raises, \<open>Some v\<close> for the decoded value \<open>v\<close>. Python's \<^verbatim>\<open>None\<close> is \<open>JNull\<close>.

  A float is the real number it stands for, or one of the three special values. Comparison
  with \<open>0\<close> and \<open>1\<close> is exact on floats; the rounding of the one product
  \<^verbatim>\<open>x * 65535\<close> is not modelled (the product is taken exactly).
\<close>

datatype pyfloat = Fin real | PInf | NInf | NaN

datatype json =
    JNull
  | JBool bool
  | JInt int
  | JFloat pyfloat
  | JStr string
  | JArr "json list"
  | JObj "(string \<times> json) list"

text \<open>The exceptions the handler can raise. None of them is an \<^verbatim>\<open>OSError\<close>.\<close>

datatype py_error = TypeError | ValueError | OverflowError | AttributeError

text \<open>\<^verbatim>\<open>a < b\<close> on floats: every comparison with NaN is false.\<close>

fun flt_less :: "pyfloat \<Rightarrow> pyfloat \<Rightarrow> bool" where
  "flt_less NaN _ = False"
| "flt_less _ NaN = False"
| "flt_less (Fin a) (Fin b) = (a < b)"
| "flt_less NInf NInf = False"
| "flt_less NInf _ = True"
| "flt_less _ NInf = False"
| "flt_less PInf _ = False"
| "flt_less _ PInf = True"

text \<open>\<^verbatim>\<open>x * 65535\<close>: multiplication by a positive integer constant.\<close>

fun flt_scale :: "pyfloat \<Rightarrow> int \<Rightarrow> pyfloat" where
  "flt_scale (Fin q) k = Fin (q * of_int k)"
| "flt_scale x k = x"

text \<open>\<^verbatim>\<open>int(x)\<close> on a float truncates towards zero; the special values raise.\<close>

fun int_of_float :: "pyfloat \<Rightarrow> py_error + int" where
  "int_of_float (Fin q) = Inr (if 0 \<le> q then \<lfloor>q\<rfloor> else \<lceil>q\<rceil>)"
| "int_of_float PInf = Inl OverflowError"
| "int_of_float NInf = Inl OverflowError"
| "int_of_float NaN = Inl ValueError"

text \<open>Truth value of a decoded value, as \<^verbatim>\<open>if v:\<close> tests it.\<close>

fun truthy :: "json \<Rightarrow> bool" where
  "truthy JNull = False"
| "truthy (JBool b) = b"
| "truthy (JInt n) = (n \<noteq> 0)"
| "truthy (JFloat x) = (x \<noteq> Fin 0)"
| "truthy (JStr s) = (s \<noteq> [])"
| "truthy (JArr xs) = (xs \<noteq> [])"
| "truthy (JObj kvs) = (kvs \<noteq> [])"

text \<open>\<^verbatim>\<open>msg.get(k)\<close> and \<^verbatim>\<open>msg.get(k, d)\<close> on a decoded object.\<close>

definition py_get :: "(string \<times> json) list \<Rightarrow> string \<Rightarrow> json" where
  "py_get kvs k = (case map_of kvs k of None \<Rightarrow> JNull | Some v \<Rightarrow> v)"

definition py_get_default :: "(string \<times> json) list \<Rightarrow> string \<Rightarrow> json \<Rightarrow> json" where
  "py_get_default kvs k d = (case map_of kvs k of None \<Rightarrow> d | Some v \<Rightarrow> v)"

section \<open>The node: configuration, state, clock\<close>

text \<open>
  What the module-level code of \<^verbatim>\<open>main.py\<close> fixes before the loop starts:
  \<^verbatim>\<open>DEVICE_ID\<close> and \<^verbatim>\<open>TOKEN\<close> from the configuration, whether
  \<^verbatim>\<open>wifi_connect\<close> returned a station interface (\<open>sta_connected\<close>), and the address
  \<^verbatim>\<open>netif.ifconfig()[0]\<close> (\<open>None\<close> when \<^verbatim>\<open>netif\<close> has no \<^verbatim>\<open>ifconfig\<close>).
  The two string parsers of the builtins \<^verbatim>\<open>int\<close> and \<^verbatim>\<open>float\<close> are parameters:
  \<open>None\<close> is the parser's \<^verbatim>\<open>ValueError\<close>.
\<close>

record node_env =
  DEVICE_ID :: string
  TOKEN :: string
  sta_connected :: bool
  netif_ip :: "string option"
  int_of_str :: "string \<Rightarrow> int option"
  float_of_str :: "string \<Rightarrow> pyfloat option"

text \<open>\<^verbatim>\<open>mode = "STA" if sta else "AP"\<close>\<close>

definition mode :: "node_env \<Rightarrow> string" where
  "mode env = (if sta_connected env then ''STA'' else ''AP'')"

type_synonym addr = "string \<times> nat"

text \<open>
  The mutable state: the PWM duty last written by \<^verbatim>\<open>pwm.duty_u16\<close>, the buzzer
  pin, the global \<^verbatim>\<open>active_until_ms\<close>, the millisecond clock that
  \<^verbatim>\<open>time.ticks_ms\<close> reads and \<^verbatim>\<open>time.sleep_ms\<close> advances, and the datagrams
  sent so far.
\<close>

record node_state =
  duty_u16 :: int
  buzzer :: int
  active_until_ms :: int
  clock_ms :: int
  sent :: "(addr \<times> json) list"

text \<open>
  MicroPython's tick counter wraps at \<^verbatim>\<open>TICKS_PERIOD\<close>, \<open>2 ^ 30\<close> on the 32-bit
  ports; \<^verbatim>\<open>ticks_add\<close> and \<^verbatim>\<open>ticks_diff\<close> are its modular arithmetic.
\<close>

definition TICKS_PERIOD :: int where
  "TICKS_PERIOD = 2 ^ 30"

definition ticks_ms :: "node_state \<Rightarrow> int" where
  "ticks_ms s = clock_ms s mod TICKS_PERIOD"

definition ticks_add :: "int \<Rightarrow> int \<Rightarrow> int" where
  "ticks_add t delta = (t + delta) mod TICKS_PERIOD"

definition ticks_diff :: "int \<Rightarrow> int \<Rightarrow> int" where
  "ticks_diff e b = (e - b + TICKS_PERIOD div 2) mod TICKS_PERIOD - TICKS_PERIOD div 2"

definition sleep_ms :: "int \<Rightarrow> node_state \<Rightarrow> node_state" where
  "sleep_ms n s = s\<lparr>clock_ms := clock_ms s + n\<rparr>"

section \<open>The node's functions\<close>

text \<open>Sequencing of steps that may raise.\<close>

definition and_then :: "py_error + 'a \<Rightarrow> ('a \<Rightarrow> py_error + 'b) \<Rightarrow> py_error + 'b" where
  "and_then m f = (case m of Inl e \<Rightarrow> Inl e | Inr x \<Rightarrow> f x)"

text \<open>\<^verbatim>\<open>int(v)\<close> and \<^verbatim>\<open>float(v)\<close> on a decoded value.\<close>

fun py_int :: "node_env \<Rightarrow> json \<Rightarrow> py_error + int" where
  "py_int env (JInt n) = Inr n"
| "py_int env (JBool b) = Inr (if b then 1 else 0)"
| "py_int env (JFloat x) = int_of_float x"
| "py_int env (JStr s) = (case int_of_str env s of None \<Rightarrow> Inl ValueError | Some n \<Rightarrow> Inr n)"
| "py_int env v = Inl TypeError"

fun py_float :: "node_env \<Rightarrow> json \<Rightarrow> py_error + pyfloat" where
  "py_float env (JInt n) = Inr (Fin (of_int n))"
| "py_float env (JBool b) = Inr (Fin (if b then 1 else 0))"
| "py_float env (JFloat x) = Inr x"
| "py_float env (JStr s) = (case float_of_str env s of None \<Rightarrow> Inl ValueError | Some x \<Rightarrow> Inr x)"
| "py_float env v = Inl TypeError"

text \<open>
  \<^verbatim>\<open>set_intensity\<close>: clamp to 0..1, then \<^verbatim>\<open>pwm.duty_u16(int(x * 65535))\<close>.
  Both comparisons are false on NaN, which then reaches \<^verbatim>\<open>int\<close> and raises before
  the duty is written.
\<close>

definition set_intensity :: "pyfloat \<Rightarrow> node_state \<Rightarrow> py_error + node_state" where
  "set_intensity x s =
     (let x1 = (if flt_less x (Fin 0) then Fin 0 else x);
          x2 = (if flt_less (Fin 1) x1 then Fin 1 else x1)
      in and_then (int_of_float (flt_scale x2 65535)) (\<lambda>d. Inr (s\<lparr>duty_u16 := d\<rparr>)))"

text \<open>\<^verbatim>\<open>beep\<close>: buzzer on, a blocking sleep, buzzer off.\<close>

definition beep :: "int \<Rightarrow> node_state \<Rightarrow> node_state" where
  "beep ms s = (sleep_ms ms (s\<lparr>buzzer := 1\<rparr>))\<lparr>buzzer := 0\<rparr>"

definition stop_vibe :: "node_state \<Rightarrow> py_error + node_state" where
  "stop_vibe s = and_then (set_intensity (Fin 0) s) (\<lambda>s1. Inr (s1\<lparr>active_until_ms := 0\<rparr>))"

definition start_vibe :: "int \<Rightarrow> pyfloat \<Rightarrow> node_state \<Rightarrow> py_error + node_state" where
  "start_vibe duration_ms intensity s =
     and_then (set_intensity intensity s)
       (\<lambda>s1. Inr (s1\<lparr>active_until_ms := ticks_add (ticks_ms s1) (max 0 duration_ms)\<rparr>))"

text \<open>The fields of the reply to a ping, the dictionary given to \<^verbatim>\<open>ujson.dumps\<close>.\<close>

definition ping_reply :: "node_env \<Rightarrow> (string \<times> json) list" where
  "ping_reply env =
     [(''id'', JStr (DEVICE_ID env)),
      (''ip'', JStr (case netif_ip env of Some a \<Rightarrow> a | None \<Rightarrow> ''0.0.0.0'')),
      (''mode'', JStr (mode env)),
      (''ok'', JBool True)]"

text \<open>
  \<^verbatim>\<open>handle_packet(payload, src)\<close>. \<open>tx\<close> says whether \<^verbatim>\<open>sock.sendto\<close> succeeds;
  when it raises, the bare \<^verbatim>\<open>except\<close> swallows the error and nothing is sent.
  A decoded value that is not an object has no \<^verbatim>\<open>get\<close>: \<^verbatim>\<open>AttributeError\<close>.
  The \<^verbatim>\<open>print\<close> calls are not modelled.
\<close>

definition handle_packet ::
  "node_env \<Rightarrow> bool \<Rightarrow> json option \<Rightarrow> addr \<Rightarrow> node_state \<Rightarrow> py_error + node_state" where
  "handle_packet env tx payload src s =
     (case payload of
        None \<Rightarrow> Inr s
      | Some (JObj msg) \<Rightarrow>
          if py_get msg ''token'' \<noteq> JStr (TOKEN env) then Inr s
          else
            let tgt = py_get msg ''target'' in
            if truthy tgt \<and> tgt \<noteq> JStr (DEVICE_ID env) then Inr s
            else
              let cmd = py_get_default msg ''cmd'' (JStr '''') in
              if cmd = JStr ''buzz'' then
                and_then (py_int env (py_get_default msg ''duration_ms'' (JInt 1000))) (\<lambda>ms.
                and_then (py_float env (py_get_default msg ''intensity'' (JFloat (Fin 1)))) (\<lambda>inten.
                  let ms = (if ms < 0 then 0 else if ms > 10000 then 10000 else ms);
                      inten = (if flt_less inten (Fin 0) then Fin 0
                               else if flt_less (Fin 1) inten then Fin 1 else inten)
                  in and_then (start_vibe ms inten s) (\<lambda>s1.
                       Inr (if truthy (py_get msg ''beep'') then beep 120 s1 else s1))))
              else if cmd = JStr ''stop'' then stop_vibe s
              else if cmd = JStr ''ping'' then
                Inr (if tx then s\<lparr>sent := sent s @ [(src, JObj (ping_reply env))]\<rparr> else s)
              else Inr s
      | Some _ \<Rightarrow> Inl AttributeError)"

text \<open>
  One iteration of the main loop. \<open>pkt\<close> is what \<^verbatim>\<open>sock.recvfrom\<close> returned
  (\<open>None\<close>: it raised \<^verbatim>\<open>OSError\<close>, the 50 ms timeout included), \<open>recv_wait\<close> the
  milliseconds it took. An exception of the handler is no \<^verbatim>\<open>OSError\<close>, so
  \<^verbatim>\<open>except OSError\<close> does not catch it and it leaves the loop.
\<close>

record loop_input =
  pkt :: "(json option \<times> addr) option"
  recv_wait :: nat
  send_ok :: bool

definition loop_iter :: "node_env \<Rightarrow> loop_input \<Rightarrow> node_state \<Rightarrow> py_error + node_state" where
  "loop_iter env inp s =
     (let s0 = sleep_ms (int (recv_wait inp)) s in
      and_then
        (case pkt inp of
           None \<Rightarrow> Inr s0
         | Some (data, src) \<Rightarrow> handle_packet env (send_ok inp) data src s0)
        (\<lambda>s1. if active_until_ms s1 \<noteq> 0 \<and> ticks_diff (active_until_ms s1) (ticks_ms s1) \<le> 0
              then stop_vibe s1 else Inr s1))"

text \<open>The loop over a finite run of receive outcomes; the first exception ends it.\<close>

fun main_loop :: "node_env \<Rightarrow> loop_input list \<Rightarrow> node_state \<Rightarrow> py_error + node_state" where
  "main_loop env [] s = Inr s"
| "main_loop env (inp # inps) s = and_then (loop_iter env inp s) (main_loop env inps)"

text \<open>The state when the loop is entered, \<open>t\<close> milliseconds after boot.\<close>

definition boot_state :: "int \<Rightarrow> node_state" where
  "boot_state t = \<lparr>duty_u16 = 0, buzzer = 0, active_until_ms = 0, clock_ms = t, sent = []\<rparr>"

section \<open>The controller: broadcast address and discovery\<close>

text \<open>
  \<^verbatim>\<open>calc_broadcast\<close> (\<^verbatim>\<open>src/haptic/haptic_client.py\<close>) builds
  \<^verbatim>\<open>ipaddress.IPv4Network(f"{ip}/{mask}", strict=False)\<close> and returns its
  \<^verbatim>\<open>broadcast_address\<close>. Addresses are the 32-bit integers the standard library
  parses the dotted quads to, and its integer arithmetic is followed step by step on
  Python's unbounded integers (\<open>int\<close>, whose bit operations are two's complement as
  Python's are). The mask is a dotted quad; the prefix-length form \<^verbatim>\<open>ip/24\<close> is not
  modelled.
\<close>

definition ALL_ONES :: int where
  "ALL_ONES = 2 ^ 32 - 1"

definition max_prefixlen :: nat where
  "max_prefixlen = 32"

text \<open>\<^verbatim>\<open>int.bit_length()\<close>\<close>

function bit_length :: "int \<Rightarrow> nat" where
  "bit_length n = (if n = 0 then 0 else Suc (bit_length (\<bar>n\<bar> div 2)))"
  by pat_completeness auto
termination
  by (relation "measure (\<lambda>n. nat \<bar>n\<bar>)") auto

declare bit_length.simps [simp del]

definition count_righthand_zero_bits :: "int \<Rightarrow> nat \<Rightarrow> nat" where
  "count_righthand_zero_bits number bits =
     (if number = 0 then bits else min bits (bit_length (NOT number AND (number - 1))))"

definition prefix_from_ip_int :: "int \<Rightarrow> py_error + nat" where
  "prefix_from_ip_int ip_int =
     (let trailing_zeroes = count_righthand_zero_bits ip_int max_prefixlen;
          prefixlen = max_prefixlen - trailing_zeroes;
          leading_ones = drop_bit trailing_zeroes ip_int;
          all_ones = push_bit prefixlen 1 - 1
      in if leading_ones \<noteq> all_ones then Inl ValueError else Inr prefixlen)"

text \<open>
  \<^verbatim>\<open>_prefix_from_ip_string\<close>, after the quad is parsed: the mask is tried as a
  netmask first, then, with its bits inverted, as a hostmask.
\<close>

definition prefix_from_ip_string :: "int \<Rightarrow> py_error + nat" where
  "prefix_from_ip_string ip_int =
     (case prefix_from_ip_int ip_int of
        Inr p \<Rightarrow> Inr p
      | Inl _ \<Rightarrow>
          (case prefix_from_ip_int (ip_int XOR ALL_ONES) of
             Inr p \<Rightarrow> Inr p
           | Inl _ \<Rightarrow> Inl ValueError))"

definition ip_int_from_prefix :: "nat \<Rightarrow> int" where
  "ip_int_from_prefix prefixlen = ALL_ONES XOR drop_bit prefixlen ALL_ONES"

text \<open>
  The network: the netmask is rebuilt from the prefix length, the host bits of the
  address are masked off (\<^verbatim>\<open>strict=False\<close>), and the broadcast address is the
  network address with the hostmask set.
\<close>

definition calc_broadcast :: "int \<Rightarrow> int \<Rightarrow> py_error + int" where
  "calc_broadcast ip msk =
     and_then (prefix_from_ip_string msk) (\<lambda>prefixlen.
       let netmask = ip_int_from_prefix prefixlen;
           network_address = ip AND netmask;
           hostmask = netmask XOR ALL_ONES
       in Inr (network_address OR hostmask))"







section \<open>Vocabulary of the specification\<close>

text \<open>Clamping to a closed range, as the specification words it.\<close>

definition clamp :: "'a::linorder \<Rightarrow> 'a \<Rightarrow> 'a \<Rightarrow> 'a" where
  "clamp lo hi v = (if v < lo then lo else if hi < v then hi else v)"

text \<open>
  A decoded object passes the node's two guards: its token is the configured one, and
  its target, when it has a true one, names this node.
\<close>

definition passes_checks :: "node_env \<Rightarrow> (string \<times> json) list \<Rightarrow> bool" where
  "passes_checks env msg =
     (py_get msg ''token'' = JStr (TOKEN env) \<and>
      (truthy (py_get msg ''target'') \<longrightarrow> py_get msg ''target'' = JStr (DEVICE_ID env)))"

text \<open>
  A \<^verbatim>\<open>buzz\<close> command for this node whose \<^verbatim>\<open>duration_ms\<close> converts to the integer
  \<open>d\<close> and whose \<^verbatim>\<open>intensity\<close> converts to the finite float \<open>x\<close> (absent fields
  take the handler's defaults).
\<close>

definition buzz_command :: "node_env \<Rightarrow> (string \<times> json) list \<Rightarrow> int \<Rightarrow> real \<Rightarrow> bool" where
  "buzz_command env msg d x =
     (passes_checks env msg \<and>
      py_get_default msg ''cmd'' (JStr '''') = JStr ''buzz'' \<and>
      py_int env (py_get_default msg ''duration_ms'' (JInt 1000)) = Inr d \<and>
      py_float env (py_get_default msg ''intensity'' (JFloat (Fin 1))) = Inr (Fin x))"

text \<open>
  The invariant of the specification's data model, read at the clock of the state:
  the output is non-zero exactly when \<^verbatim>\<open>active_until_ms\<close> is set and strictly ahead.
  And its one direction that the loop maintains.
\<close>

definition deadline_ahead :: "node_state \<Rightarrow> bool" where
  "deadline_ahead s =
     (active_until_ms s \<noteq> 0 \<and> 0 < ticks_diff (active_until_ms s) (ticks_ms s))"

definition actuation_invariant :: "node_state \<Rightarrow> bool" where
  "actuation_invariant s = ((duty_u16 s \<noteq> 0) = deadline_ahead s)"

definition output_implies_deadline :: "node_state \<Rightarrow> bool" where
  "output_implies_deadline s = (duty_u16 s \<noteq> 0 \<longrightarrow> deadline_ahead s)"

text \<open>
  The broadcast arithmetic in the specification's words: the address AND NOT mask,
  then OR mask, on 32 bits.
\<close>

definition spec_broadcast :: "int \<Rightarrow> int \<Rightarrow> int" where
  "spec_broadcast ip msk = (ip AND (msk XOR ALL_ONES)) OR msk"



subsection \<open>Concrete inputs\<close>

text \<open>
  The defaults of the two programs: identifier \<^verbatim>\<open>haptic01\<close>, token
  \<^verbatim>\<open>change-me\<close>, the node at 192.168.86.239 in station mode. None of the example
  messages carries a number as a string, so the string parsers play no part.
\<close>

definition ex_env :: node_env where
  "ex_env = \<lparr>DEVICE_ID = ''haptic01'', TOKEN = ''change-me'', sta_connected = True,
     netif_ip = Some ''192.168.86.239'', int_of_str = (\<lambda>s. None),
     float_of_str = (\<lambda>s. None)\<rparr>"

definition ex_src :: addr where
  "ex_src = (''192.168.86.20'', 50000)"

text \<open>The payloads as \<^verbatim>\<open>haptic_client.py\<close> builds them.\<close>

definition client_buzz :: "int \<Rightarrow> real \<Rightarrow> string \<Rightarrow> bool \<Rightarrow> (string \<times> json) list" where
  "client_buzz ms intensity token with_beep =
     [(''cmd'', JStr ''buzz''), (''duration_ms'', JInt ms),
      (''intensity'', JFloat (Fin intensity)), (''token'', JStr token)]
     @ (if with_beep then [(''beep'', JBool True)] else [])"

definition client_ping :: "string \<Rightarrow> (string \<times> json) list" where
  "client_ping token = [(''cmd'', JStr ''ping''), (''token'', JStr token)]"

text \<open>
  The same node with a \<^verbatim>\<open>float\<close> that reads the string \<^verbatim>\<open>nan\<close> as NaN, as
  MicroPython's does.
\<close>

definition ex_env_nan :: node_env where
  "ex_env_nan = ex_env\<lparr>float_of_str := (\<lambda>s. if s = ''nan'' then Some NaN else None)\<rparr>"


section \<open>Facts about the model\<close>

lemma set_intensity_Fin:
  "set_intensity (Fin x) s = Inr (s\<lparr>duty_u16 := \<lfloor>clamp 0 1 x * 65535\<rfloor>\<rparr>)"
  by (simp add: set_intensity_def and_then_def clamp_def Let_def)

lemma start_vibe_Fin:
  "start_vibe d (Fin x) s =
     Inr (s\<lparr>duty_u16 := \<lfloor>clamp 0 1 x * 65535\<rfloor>,
            active_until_ms := ticks_add (ticks_ms s) (max 0 d)\<rparr>)"
  by (simp add: start_vibe_def set_intensity_Fin and_then_def ticks_ms_def)

lemma stop_vibe_eq: "stop_vibe s = Inr (s\<lparr>duty_u16 := 0, active_until_ms := 0\<rparr>)"
  by (simp add: stop_vibe_def set_intensity_Fin and_then_def clamp_def)

lemma handle_packet_buzz:
  assumes "buzz_command env msg d x"
  shows "handle_packet env tx (Some (JObj msg)) src s =
     Inr (let s1 = s\<lparr>duty_u16 := \<lfloor>clamp 0 1 x * 65535\<rfloor>,
                      active_until_ms := ticks_add (ticks_ms s) (clamp 0 10000 d)\<rparr>
          in if truthy (py_get msg ''beep'') then beep 120 s1 else s1)"
  using assms unfolding buzz_command_def passes_checks_def
  by (cases "x < 0"; cases "1 < x"; cases "d < 0"; cases "10000 < d")
     (auto simp add: handle_packet_def and_then_def Let_def start_vibe_Fin clamp_def)

lemma ticks_diff_add:
  assumes "0 \<le> d" "d < TICKS_PERIOD div 2"
  shows "ticks_diff (ticks_add t d) t = d"
proof -
  have "(ticks_add t d - t + TICKS_PERIOD div 2) mod TICKS_PERIOD
          = (d + TICKS_PERIOD div 2) mod TICKS_PERIOD"
    unfolding ticks_add_def
    by (smt (verit) mod_add_left_eq mod_diff_left_eq)
  also have "\<dots> = d + TICKS_PERIOD div 2"
    using assms by (simp add: TICKS_PERIOD_def)
  finally show ?thesis by (simp add: ticks_diff_def)
qed

lemma clamp_ms_range: "0 \<le> clamp 0 10000 (d::int) \<and> clamp 0 10000 d < TICKS_PERIOD div 2"
  by (simp add: clamp_def TICKS_PERIOD_def)

lemma beep_fields:
  "duty_u16 (beep n s) = duty_u16 s" "active_until_ms (beep n s) = active_until_ms s"
  "buzzer (beep n s) = 0" "clock_ms (beep n s) = clock_ms s + n" "sent (beep n s) = sent s"
  by (simp_all add: beep_def sleep_ms_def)

section \<open>Clamping of the buzz parameters\<close>

text \<open>
  Where the clamps hold. A \<^verbatim>\<open>buzz\<close> command that passes the node's checks, with
  \<^verbatim>\<open>duration_ms\<close> converting to the integer \<open>d\<close> and \<^verbatim>\<open>intensity\<close> to the
  finite \<open>x\<close>, returns normally: the duty written is the one of \<open>x\<close> clamped to
  the range 0 to 1, and the deadline is the tick of handling plus \<open>d\<close> clamped to the
  range 0 to 10000, that is, that many milliseconds ahead.
\<close>

lemma buzz_applies_clamped_values:
  assumes "buzz_command env msg d x"
  shows "\<exists>s'. handle_packet env tx (Some (JObj msg)) src s = Inr s' \<and>
           duty_u16 s' = \<lfloor>clamp 0 1 x * 65535\<rfloor> \<and>
           active_until_ms s' = ticks_add (ticks_ms s) (clamp 0 10000 d) \<and>
           ticks_diff (active_until_ms s') (ticks_ms s) = clamp 0 10000 d"
  using clamp_ms_range [of d]
  by (simp add: handle_packet_buzz [OF assms] Let_def beep_fields ticks_diff_add)

lemma buzz_applies_clamped_values_witness:
  "buzz_command ex_env (client_buzz 50000 (17 / 10) ''change-me'' False) 50000 (17 / 10) \<and>
   buzz_command ex_env (client_buzz (- 5) (- 3 / 10) ''change-me'' True) (- 5) (- 3 / 10) \<and>
   (\<exists>s'. handle_packet ex_env True (Some (JObj (client_buzz 50000 (17 / 10) ''change-me'' False)))
            ex_src (boot_state 77) = Inr s' \<and>
          duty_u16 s' = 65535 \<and> active_until_ms s' = 10077) \<and>
   (\<exists>s'. handle_packet ex_env True (Some (JObj (client_buzz (- 5) (- 3 / 10) ''change-me'' True)))
            ex_src (boot_state 77) = Inr s' \<and>
          duty_u16 s' = 0 \<and> active_until_ms s' = 77)"
proof -
  have a: "buzz_command ex_env (client_buzz 50000 (17 / 10) ''change-me'' False) 50000 (17 / 10)"
    by (simp add: buzz_command_def passes_checks_def client_buzz_def ex_env_def py_get_def
        py_get_default_def)
  have b: "buzz_command ex_env (client_buzz (- 5) (- 3 / 10) ''change-me'' True) (- 5) (- 3 / 10)"
    by (simp add: buzz_command_def passes_checks_def client_buzz_def ex_env_def py_get_def
        py_get_default_def)
  have t: "ticks_ms (boot_state 77) = 77"
    by (simp add: ticks_ms_def boot_state_def TICKS_PERIOD_def)
  show ?thesis
    using a b
      buzz_applies_clamped_values [OF a, of True ex_src "boot_state 77"]
      buzz_applies_clamped_values [OF b, of True ex_src "boot_state 77"]
    by (auto simp add: t clamp_def ticks_add_def TICKS_PERIOD_def)
qed

text \<open>An infinite intensity is clamped as well: to full duty, or to none.\<close>

lemma set_intensity_infinite:
  "set_intensity PInf s = Inr (s\<lparr>duty_u16 := 65535\<rparr>)"
  "set_intensity NInf s = Inr (s\<lparr>duty_u16 := 0\<rparr>)"
  by (simp_all add: set_intensity_def and_then_def Let_def)

lemma buzz_infinite_intensity_clamped:
  assumes "passes_checks env msg"
    and "py_get_default msg ''cmd'' (JStr '''') = JStr ''buzz''"
    and "py_int env (py_get_default msg ''duration_ms'' (JInt 1000)) = Inr d"
    and "py_float env (py_get_default msg ''intensity'' (JFloat (Fin 1))) = Inr x"
    and "x = PInf \<or> x = NInf"
  shows "\<exists>s'. handle_packet env tx (Some (JObj msg)) src s = Inr s' \<and>
           duty_u16 s' = (if x = PInf then 65535 else 0) \<and>
           active_until_ms s' = ticks_add (ticks_ms s) (clamp 0 10000 d)"
  using assms unfolding passes_checks_def
  by (cases "d < 0"; cases "10000 < d")
     (auto simp add: handle_packet_def and_then_def Let_def start_vibe_def set_intensity_Fin
        clamp_def beep_fields ticks_ms_def)

text \<open>
  Claim C2 says that every \<^verbatim>\<open>buzz\<close> command has its out-of-range values clamped
  and is never rejected for them. Two such values are not clamped. A \<^verbatim>\<open>duration_ms\<close>
  of \<^verbatim>\<open>1e999\<close> decodes to infinity and \<^verbatim>\<open>int\<close> raises \<^verbatim>\<open>OverflowError\<close>
  before the clamp is reached; the exception leaves the iteration. An \<^verbatim>\<open>intensity\<close>
  of \<^verbatim>\<open>"nan"\<close> passes both clamps, whose comparisons are false on NaN, and
  \<^verbatim>\<open>set_intensity\<close> raises \<^verbatim>\<open>ValueError\<close> in \<^verbatim>\<open>int\<close>.
\<close>

theorem buzz_out_of_range_raises:
  "handle_packet env tx
      (Some (JObj [(''cmd'', JStr ''buzz''), (''duration_ms'', JFloat PInf),
                   (''intensity'', JFloat (Fin (1 / 2))), (''token'', JStr (TOKEN env))]))
      src s = Inl OverflowError \<and>
   loop_iter env
      \<lparr>pkt = Some (Some (JObj [(''cmd'', JStr ''buzz''), (''duration_ms'', JFloat PInf),
                               (''intensity'', JFloat (Fin (1 / 2))),
                               (''token'', JStr (TOKEN env))]), src),
       recv_wait = w, send_ok = tx\<rparr> s = Inl OverflowError \<and>
   handle_packet ex_env_nan True
      (Some (JObj [(''cmd'', JStr ''buzz''), (''duration_ms'', JInt 1000),
                   (''intensity'', JStr ''nan''), (''token'', JStr ''change-me'')]))
      ex_src (boot_state 77) = Inl ValueError"
  by (simp add: loop_iter_def handle_packet_def py_get_def py_get_default_def and_then_def
      ex_env_nan_def ex_env_def start_vibe_def set_intensity_def)

section \<open>Commands with a wrong token\<close>

text \<open>
  Claim C4. A decoded command whose \<^verbatim>\<open>token\<close> is not the configured token
  (an absent token included) leaves the whole state as it was, the list of sent
  datagrams included, whatever its \<^verbatim>\<open>cmd\<close> is.
\<close>

theorem wrong_token_no_effect:
  assumes "py_get msg ''token'' \<noteq> JStr (TOKEN env)"
  shows "handle_packet env tx (Some (JObj msg)) src s = Inr s"
  using assms by (simp add: handle_packet_def)

theorem wrong_token_no_effect_witness:
  "py_get (client_ping ''guess'') ''token'' \<noteq> JStr (TOKEN ex_env) \<and>
   handle_packet ex_env True (Some (JObj (client_ping ''guess''))) ex_src (boot_state 5)
     = Inr (boot_state 5)"
proof -
  have h: "py_get (client_ping ''guess'') ''token'' \<noteq> JStr (TOKEN ex_env)"
    by (simp add: client_ping_def py_get_def ex_env_def)
  show ?thesis
    using h wrong_token_no_effect [OF h, of True ex_src "boot_state 5"] by simp
qed

section \<open>An empty target\<close>







section \<open>The reply to a ping\<close>

lemma handle_packet_ping:
  assumes "passes_checks env msg" "py_get_default msg ''cmd'' (JStr '''') = JStr ''ping''"
  shows "handle_packet env tx (Some (JObj msg)) src s
           = Inr (if tx then s\<lparr>sent := sent s @ [(src, JObj (ping_reply env))]\<rparr> else s)"
  using assms by (auto simp add: handle_packet_def passes_checks_def)

text \<open>
  Claim C7 as stated fails on the \<^verbatim>\<open>mode\<close> field: the node in station mode
  answers a ping with \<^verbatim>\<open>"mode": "STA"\<close>, which is neither \<^verbatim>\<open>station\<close> nor
  \<^verbatim>\<open>access-point\<close>.
\<close>

theorem ping_reply_mode_counterexample:
  "handle_packet ex_env True (Some (JObj (client_ping ''change-me''))) ex_src (boot_state 5)
     = Inr ((boot_state 5)\<lparr>sent := [(ex_src, JObj (ping_reply ex_env))]\<rparr>) \<and>
   py_get (ping_reply ex_env) ''mode'' = JStr ''STA'' \<and>
   py_get (ping_reply ex_env) ''mode'' \<noteq> JStr ''station'' \<and>
   py_get (ping_reply ex_env) ''mode'' \<noteq> JStr ''access-point''"
  by (simp add: handle_packet_def client_ping_def py_get_def py_get_default_def ex_env_def
      boot_state_def ping_reply_def mode_def)

text \<open>
  Claim C7, amended. A ping that passes the token and target checks returns normally
  and leaves the duty and the deadline as they were; when \<^verbatim>\<open>sendto\<close> succeeds
  exactly one datagram is added, addressed to the sender (a failing send is swallowed
  and nothing is added). The reply carries the node's identifier, the address of its
  interface, \<^verbatim>\<open>mode\<close> equal to \<^verbatim>\<open>STA\<close> or \<^verbatim>\<open>AP\<close>, and \<^verbatim>\<open>ok\<close> true.
\<close>

theorem ping_replies_once:
  assumes "passes_checks env msg" "py_get_default msg ''cmd'' (JStr '''') = JStr ''ping''"
  shows "\<exists>s'. handle_packet env tx (Some (JObj msg)) src s = Inr s' \<and>
           duty_u16 s' = duty_u16 s \<and> active_until_ms s' = active_until_ms s \<and>
           sent s' = sent s @ (if tx then [(src, JObj (ping_reply env))] else []) \<and>
           py_get (ping_reply env) ''id'' = JStr (DEVICE_ID env) \<and>
           py_get (ping_reply env) ''ip''
             = JStr (case netif_ip env of Some a \<Rightarrow> a | None \<Rightarrow> ''0.0.0.0'') \<and>
           (py_get (ping_reply env) ''mode'' = JStr ''STA'' \<or>
            py_get (ping_reply env) ''mode'' = JStr ''AP'') \<and>
           py_get (ping_reply env) ''ok'' = JBool True"
  by (simp add: handle_packet_ping [OF assms] ping_reply_def py_get_def mode_def)

theorem ping_replies_once_witness:
  "passes_checks ex_env (client_ping ''change-me'') \<and>
   py_get_default (client_ping ''change-me'') ''cmd'' (JStr '''') = JStr ''ping'' \<and>
   (\<exists>s'. handle_packet ex_env True (Some (JObj (client_ping ''change-me''))) ex_src (boot_state 5)
            = Inr s' \<and>
          sent s' = [(ex_src, JObj (ping_reply ex_env))] \<and>
          py_get (ping_reply ex_env) ''mode'' = JStr ''STA'')"
proof -
  have a: "passes_checks ex_env (client_ping ''change-me'')"
    by (simp add: passes_checks_def client_ping_def py_get_def ex_env_def)
  have b: "py_get_default (client_ping ''change-me'') ''cmd'' (JStr '''') = JStr ''ping''"
    by (simp add: client_ping_def py_get_default_def)
  have m: "py_get (ping_reply ex_env) ''mode'' = JStr ''STA''"
    by (simp add: ping_reply_def py_get_def mode_def ex_env_def)
  show ?thesis
    using a b m ping_replies_once [OF a b, of True ex_src "boot_state 5"]
    by (auto simp add: boot_state_def)
qed

section \<open>The alert pulse\<close>

text \<open>
  Claim C9 as stated fails on its last part, that the pulse does not block the next
  receive: \<^verbatim>\<open>beep\<close> sleeps inside the handler. A buzz with the beep flag that
  the handler takes up at clock 1000 returns at clock 1120, and only then can the loop
  go on to its deadline check and the next \<^verbatim>\<open>recvfrom\<close>.
\<close>

theorem beep_blocks_counterexample:
  "handle_packet ex_env True (Some (JObj (client_buzz 2000 (4 / 5) ''change-me'' True)))
       ex_src (boot_state 1000)
     = Inr \<lparr>duty_u16 = 52428, buzzer = 0, active_until_ms = 3000, clock_ms = 1120, sent = []\<rparr> \<and>
   clock_ms (boot_state 1000) = 1000"
  by (simp add: handle_packet_def client_buzz_def py_get_def py_get_default_def ex_env_def
      boot_state_def and_then_def start_vibe_def set_intensity_def beep_def sleep_ms_def
      ticks_add_def ticks_ms_def TICKS_PERIOD_def)

text \<open>
  Claim C9, amended. For every \<^verbatim>\<open>buzz\<close> command with a true \<^verbatim>\<open>beep\<close> flag the
  pulse leaves the duty and the deadline as \<^verbatim>\<open>start_vibe\<close> set them and ends with
  the buzzer off, and it is synchronous: the handler returns 120 ms after it was
  entered.
\<close>

theorem beep_keeps_actuation_and_blocks:
  assumes "buzz_command env msg d x" "truthy (py_get msg ''beep'')"
  shows "\<exists>s1 s'. start_vibe (clamp 0 10000 d) (Fin (clamp 0 1 x)) s = Inr s1 \<and>
           handle_packet env tx (Some (JObj msg)) src s = Inr s' \<and>
           s' = beep 120 s1 \<and>
           duty_u16 s' = duty_u16 s1 \<and> active_until_ms s' = active_until_ms s1 \<and>
           buzzer s' = 0 \<and> clock_ms s' = clock_ms s + 120"
  using assms(2)
  by (simp add: handle_packet_buzz [OF assms(1)] start_vibe_Fin Let_def beep_fields clamp_def)

theorem beep_keeps_actuation_and_blocks_witness:
  "buzz_command ex_env (client_buzz 2000 (4 / 5) ''change-me'' True) 2000 (4 / 5) \<and>
   truthy (py_get (client_buzz 2000 (4 / 5) ''change-me'' True) ''beep'') \<and>
   (\<exists>s'. handle_packet ex_env True (Some (JObj (client_buzz 2000 (4 / 5) ''change-me'' True)))
            ex_src (boot_state 1000) = Inr s' \<and>
          duty_u16 s' = 52428 \<and> active_until_ms s' = 3000 \<and> buzzer s' = 0 \<and>
          clock_ms s' = 1120)"
proof -
  have a: "buzz_command ex_env (client_buzz 2000 (4 / 5) ''change-me'' True) 2000 (4 / 5)"
    by (simp add: buzz_command_def passes_checks_def client_buzz_def ex_env_def py_get_def
        py_get_default_def)
  have b: "truthy (py_get (client_buzz 2000 (4 / 5) ''change-me'' True) ''beep'')"
    by (simp add: client_buzz_def py_get_def)
  have v: "start_vibe (clamp 0 10000 2000) (Fin (clamp 0 1 (4 / 5))) (boot_state 1000)
             = Inr ((boot_state 1000)\<lparr>duty_u16 := 52428, active_until_ms := 3000\<rparr>)"
    by (simp add: start_vibe_def set_intensity_def and_then_def clamp_def boot_state_def
        ticks_add_def ticks_ms_def TICKS_PERIOD_def)
  show ?thesis
    using a b beep_keeps_actuation_and_blocks [OF a b, of "boot_state 1000" True ex_src]
    unfolding v by (auto simp add: beep_fields boot_state_def)
qed

section \<open>Two buzz commands\<close>

lemma loop_iter_buzz:
  assumes "buzz_command env msg d x"
  shows "\<exists>s1. loop_iter env \<lparr>pkt = Some (Some (JObj msg), src), recv_wait = w, send_ok = tx\<rparr> s
           = Inr s1 \<and> clock_ms s \<le> clock_ms s1"
  by (simp add: loop_iter_def handle_packet_buzz [OF assms] and_then_def Let_def stop_vibe_eq
      beep_fields sleep_ms_def)

text \<open>
  Claim C5. Let a first \<^verbatim>\<open>buzz\<close> be processed by one iteration of the loop, from
  any state, and let a second one be received after any wait. Both are accepted, and
  after the second is handled the duty is that of its clamped intensity and the
  deadline is the tick at which it is handled plus its clamped duration: nothing of
  the first command remains in either.
\<close>

theorem second_buzz_overwrites:
  assumes "buzz_command env msg1 d1 x1" "buzz_command env msg2 d2 x2"
  shows "\<exists>s1 s2.
           loop_iter env \<lparr>pkt = Some (Some (JObj msg1), src1), recv_wait = w1, send_ok = tx1\<rparr> s0
             = Inr s1 \<and>
           handle_packet env tx2 (Some (JObj msg2)) src2 (sleep_ms (int w2) s1) = Inr s2 \<and>
           duty_u16 s2 = \<lfloor>clamp 0 1 x2 * 65535\<rfloor> \<and>
           active_until_ms s2 = ticks_add (ticks_ms (sleep_ms (int w2) s1)) (clamp 0 10000 d2) \<and>
           ticks_diff (active_until_ms s2) (ticks_ms (sleep_ms (int w2) s1)) = clamp 0 10000 d2"
proof -
  obtain s1 where s1:
    "loop_iter env \<lparr>pkt = Some (Some (JObj msg1), src1), recv_wait = w1, send_ok = tx1\<rparr> s0 = Inr s1"
    using loop_iter_buzz [OF assms(1)] by blast
  show ?thesis
    using clamp_ms_range [of d2]
    by (simp add: s1 handle_packet_buzz [OF assms(2)] Let_def beep_fields ticks_diff_add)
qed

theorem second_buzz_overwrites_witness:
  "buzz_command ex_env (client_buzz 5000 1 ''change-me'' False) 5000 1 \<and>
   buzz_command ex_env (client_buzz 300 (1 / 2) ''change-me'' False) 300 (1 / 2) \<and>
   (\<exists>s1 s2.
      loop_iter ex_env \<lparr>pkt = Some (Some (JObj (client_buzz 5000 1 ''change-me'' False)), ex_src),
          recv_wait = 10, send_ok = True\<rparr> (boot_state 1000) = Inr s1 \<and>
      duty_u16 s1 = 65535 \<and> active_until_ms s1 = 6010 \<and>
      handle_packet ex_env True (Some (JObj (client_buzz 300 (1 / 2) ''change-me'' False))) ex_src
          (sleep_ms (int 40) s1) = Inr s2 \<and>
      duty_u16 s2 = 32767 \<and> active_until_ms s2 = 1350)"
proof -
  have a: "buzz_command ex_env (client_buzz 5000 1 ''change-me'' False) 5000 1"
    by (simp add: buzz_command_def passes_checks_def client_buzz_def ex_env_def py_get_def
        py_get_default_def)
  have b: "buzz_command ex_env (client_buzz 300 (1 / 2) ''change-me'' False) 300 (1 / 2)"
    by (simp add: buzz_command_def passes_checks_def client_buzz_def ex_env_def py_get_def
        py_get_default_def)
  have l: "loop_iter ex_env \<lparr>pkt = Some (Some (JObj (client_buzz 5000 1 ''change-me'' False)), ex_src),
          recv_wait = 10, send_ok = True\<rparr> (boot_state 1000)
        = Inr \<lparr>duty_u16 = 65535, buzzer = 0, active_until_ms = 6010, clock_ms = 1010, sent = []\<rparr>"
    by (simp add: loop_iter_def handle_packet_def client_buzz_def py_get_def py_get_default_def
        ex_env_def boot_state_def and_then_def start_vibe_def set_intensity_def sleep_ms_def
        ticks_add_def ticks_ms_def ticks_diff_def TICKS_PERIOD_def)
  show ?thesis
    using a b
      second_buzz_overwrites [OF a b, of ex_src 10 True "boot_state 1000" True ex_src 40]
    by (auto simp add: l clamp_def sleep_ms_def ticks_add_def ticks_ms_def TICKS_PERIOD_def)
qed

section \<open>The actuation invariant\<close>

lemma set_intensity_Inr:
  "set_intensity x s = Inr s' \<Longrightarrow> \<exists>d. s' = s\<lparr>duty_u16 := d\<rparr>"
  by (auto simp add: set_intensity_def and_then_def Let_def split: sum.splits)

lemma start_vibe_Inr:
  assumes "start_vibe ms x s = Inr s'"
  shows "\<exists>d. s' = s\<lparr>duty_u16 := d, active_until_ms := ticks_add (ticks_ms s) (max 0 ms)\<rparr>"
proof -
  obtain s1 where 1: "set_intensity x s = Inr s1"
    and 2: "s' = s1\<lparr>active_until_ms := ticks_add (ticks_ms s1) (max 0 ms)\<rparr>"
    using assms by (auto simp add: start_vibe_def and_then_def split: sum.splits)
  from set_intensity_Inr [OF 1] obtain d where "s1 = s\<lparr>duty_u16 := d\<rparr>" ..
  with 2 show ?thesis by (auto simp add: ticks_ms_def)
qed

lemma ticks_add_nonzero:
  assumes "0 < t" "t + 10000 < TICKS_PERIOD" "0 \<le> m" "m \<le> 10000"
  shows "ticks_add t m \<noteq> 0"
proof -
  have "(t + m) mod TICKS_PERIOD = t + m"
    using assms by simp
  then show ?thesis
    using assms by (simp add: ticks_add_def)
qed


lemma and_then_eq_Inr: "and_then m f = Inr y \<longleftrightarrow> (\<exists>x. m = Inr x \<and> f x = Inr y)"
  by (cases m) (simp_all add: and_then_def)

text \<open>What the handler can do to the duty and the deadline.\<close>

lemma handle_buzz_effect:
  assumes "and_then (py_int env jd) (\<lambda>ms.
           and_then (py_float env ji) (\<lambda>inten.
             let ms = (if ms < 0 then 0 else if ms > 10000 then 10000 else ms);
                 inten = (if flt_less inten (Fin 0) then Fin 0
                          else if flt_less (Fin 1) inten then Fin 1 else inten)
             in and_then (start_vibe ms inten s) (\<lambda>s1.
                  Inr (if b then beep 120 s1 else s1)))) = Inr s'"
  shows "clock_ms s \<le> clock_ms s' \<and>
         (\<exists>m. 0 \<le> m \<and> m \<le> 10000 \<and> active_until_ms s' = ticks_add (ticks_ms s) m)"
proof -
  from assms obtain ms inten s1 where
    sv: "start_vibe (if ms < 0 then 0 else if ms > 10000 then 10000 else ms) inten s = Inr s1"
    and s': "s' = (if b then beep 120 s1 else s1)"
    unfolding and_then_eq_Inr Let_def by blast
  let ?m = "if ms < 0 then 0 else if ms > 10000 then 10000 else ms"
  from start_vibe_Inr [OF sv] obtain d where
    "s1 = s\<lparr>duty_u16 := d, active_until_ms := ticks_add (ticks_ms s) (max 0 ?m)\<rparr>" ..
  then have "active_until_ms s' = ticks_add (ticks_ms s) (max 0 ?m)"
    and "clock_ms s \<le> clock_ms s'"
    using s' by (simp_all add: beep_fields)
  moreover have "0 \<le> max 0 ?m \<and> max 0 ?m \<le> 10000" by simp
  ultimately show ?thesis by blast
qed

lemma handle_packet_effect:
  assumes "handle_packet env tx p src s = Inr s'"
  shows "clock_ms s \<le> clock_ms s' \<and>
         ((duty_u16 s' = duty_u16 s \<and> active_until_ms s' = active_until_ms s)
          \<or> duty_u16 s' = 0
          \<or> (\<exists>m. 0 \<le> m \<and> m \<le> 10000 \<and> active_until_ms s' = ticks_add (ticks_ms s) m))"
proof (cases p)
  case None
  with assms show ?thesis by (simp add: handle_packet_def)
next
  case (Some v)
  show ?thesis
  proof (cases v)
    case (JObj msg)
    consider (token) "py_get msg ''token'' \<noteq> JStr (TOKEN env)"
      | (target) "py_get msg ''token'' = JStr (TOKEN env)"
          "truthy (py_get msg ''target'') \<and> py_get msg ''target'' \<noteq> JStr (DEVICE_ID env)"
      | (accepted) "py_get msg ''token'' = JStr (TOKEN env)"
          "\<not> (truthy (py_get msg ''target'') \<and> py_get msg ''target'' \<noteq> JStr (DEVICE_ID env))"
      by blast
    then show ?thesis
    proof cases
      case token
      with assms Some JObj have "s' = s"
        by (simp add: handle_packet_def)
      then show ?thesis by simp
    next
      case target
      with assms Some JObj have "s' = s"
        by (simp add: handle_packet_def Let_def)
      then show ?thesis by simp
    next
      case accepted
      let ?cmd = "py_get_default msg ''cmd'' (JStr '''')"
      consider (buzz) "?cmd = JStr ''buzz''" | (stop) "?cmd = JStr ''stop''"
        | (ping) "?cmd = JStr ''ping''"
        | (other) "?cmd \<noteq> JStr ''buzz''" "?cmd \<noteq> JStr ''stop''" "?cmd \<noteq> JStr ''ping''"
        by blast
      then show ?thesis
      proof cases
        case buzz
        with assms Some JObj accepted have
          "and_then (py_int env (py_get_default msg ''duration_ms'' (JInt 1000))) (\<lambda>ms.
           and_then (py_float env (py_get_default msg ''intensity'' (JFloat (Fin 1)))) (\<lambda>inten.
             let ms = (if ms < 0 then 0 else if ms > 10000 then 10000 else ms);
                 inten = (if flt_less inten (Fin 0) then Fin 0
                          else if flt_less (Fin 1) inten then Fin 1 else inten)
             in and_then (start_vibe ms inten s) (\<lambda>s1.
                  Inr (if truthy (py_get msg ''beep'') then beep 120 s1 else s1)))) = Inr s'"
          by (simp add: handle_packet_def Let_def)
        from handle_buzz_effect [OF this] show ?thesis by blast
      next
        case stop
        with assms Some JObj accepted have "stop_vibe s = Inr s'"
          by (simp add: handle_packet_def Let_def)
        then show ?thesis by (auto simp add: stop_vibe_eq)
      next
        case ping
        with assms Some JObj accepted have
          "s' = (if tx then s\<lparr>sent := sent s @ [(src, JObj (ping_reply env))]\<rparr> else s)"
          by (simp add: handle_packet_def Let_def)
        then show ?thesis by simp
      next
        case other
        with assms Some JObj accepted have "s' = s"
          by (simp add: handle_packet_def Let_def)
        then show ?thesis by simp
      qed
    qed
  qed (use assms Some in \<open>simp_all add: handle_packet_def\<close>)
qed

lemma loop_iter_keeps_invariant:
  assumes inv: "output_implies_deadline s"
    and run: "loop_iter env inp s = Inr s'"
    and lo: "0 < ticks_ms (sleep_ms (int (recv_wait inp)) s)"
    and hi: "ticks_ms (sleep_ms (int (recv_wait inp)) s) + 10000 < TICKS_PERIOD"
  shows "output_implies_deadline s'"
proof -
  let ?s0 = "sleep_ms (int (recv_wait inp)) s"
  from run obtain s1 where
    h: "(case pkt inp of None \<Rightarrow> Inr ?s0
         | Some (data, src) \<Rightarrow> handle_packet env (send_ok inp) data src ?s0) = Inr s1"
    and c: "(if active_until_ms s1 \<noteq> 0 \<and> ticks_diff (active_until_ms s1) (ticks_ms s1) \<le> 0
             then stop_vibe s1 else Inr s1) = Inr s'"
    unfolding loop_iter_def Let_def and_then_eq_Inr by blast
  have w0: "duty_u16 ?s0 \<noteq> 0 \<longrightarrow> active_until_ms ?s0 \<noteq> 0"
    using inv by (simp add: output_implies_deadline_def deadline_ahead_def sleep_ms_def)
  have w1: "duty_u16 s1 \<noteq> 0 \<longrightarrow> active_until_ms s1 \<noteq> 0"
  proof (cases "pkt inp")
    case None
    with h w0 show ?thesis by simp
  next
    case (Some a)
    obtain data src where "a = (data, src)" by (cases a)
    with h Some have "handle_packet env (send_ok inp) data src ?s0 = Inr s1" by simp
    from handle_packet_effect [OF this] show ?thesis
      using w0 ticks_add_nonzero [OF lo hi] by auto
  qed
  show ?thesis
  proof (cases "active_until_ms s1 \<noteq> 0 \<and> ticks_diff (active_until_ms s1) (ticks_ms s1) \<le> 0")
    case True
    with c have "s' = s1\<lparr>duty_u16 := 0, active_until_ms := 0\<rparr>"
      by (simp add: stop_vibe_eq)
    then show ?thesis by (simp add: output_implies_deadline_def)
  next
    case False
    with c have "s' = s1" by simp
    with False w1 show ?thesis
      by (auto simp add: output_implies_deadline_def deadline_ahead_def)
  qed
qed

lemma loop_iter_clock:
  assumes "loop_iter env inp s = Inr s'"
  shows "clock_ms s + int (recv_wait inp) \<le> clock_ms s'"
proof -
  let ?s0 = "sleep_ms (int (recv_wait inp)) s"
  from assms obtain s1 where
    h: "(case pkt inp of None \<Rightarrow> Inr ?s0
         | Some (data, src) \<Rightarrow> handle_packet env (send_ok inp) data src ?s0) = Inr s1"
    and c: "(if active_until_ms s1 \<noteq> 0 \<and> ticks_diff (active_until_ms s1) (ticks_ms s1) \<le> 0
             then stop_vibe s1 else Inr s1) = Inr s'"
    unfolding loop_iter_def Let_def and_then_eq_Inr by blast
  have "clock_ms s + int (recv_wait inp) = clock_ms ?s0"
    by (simp add: sleep_ms_def)
  moreover have "clock_ms ?s0 \<le> clock_ms s1"
  proof (cases "pkt inp")
    case None
    with h show ?thesis by simp
  next
    case (Some a)
    obtain data src where "a = (data, src)" by (cases a)
    with h Some have "handle_packet env (send_ok inp) data src ?s0 = Inr s1" by simp
    from handle_packet_effect [OF this] show ?thesis by blast
  qed
  moreover have "clock_ms s1 = clock_ms s'"
    using c by (auto simp add: stop_vibe_eq split: if_splits)
  ultimately show ?thesis by simp
qed

lemma main_loop_clock:
  "main_loop env inps s = Inr s' \<Longrightarrow> clock_ms s \<le> clock_ms s'"
proof (induction inps arbitrary: s)
  case Nil
  then show ?case by simp
next
  case (Cons inp inps)
  then obtain s1 where 1: "loop_iter env inp s = Inr s1" and 2: "main_loop env inps s1 = Inr s'"
    by (auto simp add: and_then_eq_Inr)
  from loop_iter_clock [OF 1] Cons.IH [OF 2] show ?case by simp
qed

text \<open>
  Over a whole run: while the uptime stays more than ten seconds short of the first
  wrap of the tick counter, every finite run of the loop that does not raise ends in
  a state where a non-zero output has its deadline ahead.
\<close>

lemma main_loop_keeps_invariant:
  assumes "output_implies_deadline s" "main_loop env inps s = Inr s'"
    and "0 < clock_ms s" "clock_ms s' + 10000 < TICKS_PERIOD"
  shows "output_implies_deadline s'"
  using assms
proof (induction inps arbitrary: s)
  case Nil
  then show ?case by simp
next
  case (Cons inp inps)
  then obtain s1 where 1: "loop_iter env inp s = Inr s1" and 2: "main_loop env inps s1 = Inr s'"
    by (auto simp add: and_then_eq_Inr)
  let ?t = "clock_ms s + int (recv_wait inp)"
  have "?t \<le> clock_ms s1"
    by (rule loop_iter_clock [OF 1])
  moreover have "clock_ms s1 \<le> clock_ms s'"
    by (rule main_loop_clock [OF 2])
  ultimately have "0 < ?t" "?t + 10000 < TICKS_PERIOD"
    using Cons.prems(3,4) by simp_all
  then have t: "ticks_ms (sleep_ms (int (recv_wait inp)) s) = ?t"
    by (simp add: ticks_ms_def sleep_ms_def)
  have "output_implies_deadline s1"
    using loop_iter_keeps_invariant [OF Cons.prems(1) 1] \<open>0 < ?t\<close> \<open>?t + 10000 < TICKS_PERIOD\<close>
    unfolding t by simp
  moreover have "0 < clock_ms s1"
    using \<open>0 < ?t\<close> \<open>?t \<le> clock_ms s1\<close> by simp
  ultimately show ?case
    using Cons.IH [OF _ 2] Cons.prems(4) by simp
qed

text \<open>
  The reserved value: a deadline that \<^verbatim>\<open>ticks_add\<close> computes as 0 is read as
  "inactive". A one-second buzz taken up 1000 ms before the tick counter wraps leaves
  the motor at full duty with \<^verbatim>\<open>active_until_ms = 0\<close>, and the deadline check of
  the loop is skipped from then on.
\<close>

lemma deadline_zero_reads_inactive:
  "loop_iter ex_env
      \<lparr>pkt = Some (Some (JObj (client_buzz 1000 1 ''change-me'' False)), ex_src),
       recv_wait = 10, send_ok = True\<rparr> (boot_state (2 ^ 30 - 1010))
     = Inr \<lparr>duty_u16 = 65535, buzzer = 0, active_until_ms = 0, clock_ms = 2 ^ 30 - 1000,
            sent = []\<rparr>"
  by (simp add: loop_iter_def handle_packet_def client_buzz_def py_get_def py_get_default_def
      ex_env_def boot_state_def and_then_def start_vibe_def set_intensity_def sleep_ms_def
      ticks_add_def ticks_ms_def ticks_diff_def TICKS_PERIOD_def)

text \<open>
  Claim C3 as stated fails in the direction from the deadline to the output. A buzz
  with intensity 0 is accepted like any other: after the iteration that handles it the
  deadline is set and five seconds ahead, and the output is zero. The invariant held
  before that iteration and does not hold after it.
\<close>

theorem actuation_invariant_counterexample:
  "actuation_invariant (boot_state 1000) \<and>
   loop_iter ex_env
      \<lparr>pkt = Some (Some (JObj (client_buzz 5000 0 ''change-me'' False)), ex_src),
       recv_wait = 10, send_ok = True\<rparr> (boot_state 1000)
     = Inr \<lparr>duty_u16 = 0, buzzer = 0, active_until_ms = 6010, clock_ms = 1010, sent = []\<rparr> \<and>
   \<not> actuation_invariant
         \<lparr>duty_u16 = 0, buzzer = 0, active_until_ms = 6010, clock_ms = 1010, sent = []\<rparr>"
  by (simp add: actuation_invariant_def deadline_ahead_def loop_iter_def handle_packet_def
      client_buzz_def py_get_def py_get_default_def
      ex_env_def boot_state_def and_then_def start_vibe_def set_intensity_def sleep_ms_def
      ticks_add_def ticks_ms_def ticks_diff_def TICKS_PERIOD_def)

text \<open>
  Claim C3, amended. One direction is an invariant of the loop, read at the end of an
  iteration: if the output is non-zero then \<^verbatim>\<open>active_until_ms\<close> is set and
  strictly ahead of the tick of the deadline check. Every iteration that returns
  preserves it, whatever was received, provided the tick at which the datagram is taken
  up is not 0 and is more than ten seconds short of the wrap of the tick counter (the
  range in which a computed deadline cannot be the reserved value 0).
\<close>

theorem output_implies_deadline_preserved:
  assumes "output_implies_deadline s"
    and "loop_iter env inp s = Inr s'"
    and "0 < ticks_ms (sleep_ms (int (recv_wait inp)) s)"
    and "ticks_ms (sleep_ms (int (recv_wait inp)) s) + 10000 < TICKS_PERIOD"
  shows "output_implies_deadline s'"
  using assms by (rule loop_iter_keeps_invariant)

theorem output_implies_deadline_preserved_witness:
  "output_implies_deadline (boot_state 1000) \<and>
   loop_iter ex_env
      \<lparr>pkt = Some (Some (JObj (client_buzz 5000 1 ''change-me'' False)), ex_src),
       recv_wait = 10, send_ok = True\<rparr> (boot_state 1000)
     = Inr \<lparr>duty_u16 = 65535, buzzer = 0, active_until_ms = 6010, clock_ms = 1010, sent = []\<rparr> \<and>
   0 < ticks_ms (sleep_ms (int 10) (boot_state 1000)) \<and>
   ticks_ms (sleep_ms (int 10) (boot_state 1000)) + 10000 < TICKS_PERIOD \<and>
   output_implies_deadline
     \<lparr>duty_u16 = 65535, buzzer = 0, active_until_ms = 6010, clock_ms = 1010, sent = []\<rparr>"
proof -
  let ?inp = "\<lparr>pkt = Some (Some (JObj (client_buzz 5000 1 ''change-me'' False)), ex_src),
       recv_wait = 10, send_ok = True\<rparr>"
  let ?s' = "\<lparr>duty_u16 = 65535, buzzer = 0, active_until_ms = 6010, clock_ms = 1010, sent = []\<rparr>"
  have a: "output_implies_deadline (boot_state 1000)"
    by (simp add: output_implies_deadline_def boot_state_def)
  have b: "loop_iter ex_env ?inp (boot_state 1000) = Inr ?s'"
    by (simp add: loop_iter_def handle_packet_def client_buzz_def py_get_def py_get_default_def
        ex_env_def boot_state_def and_then_def start_vibe_def set_intensity_def sleep_ms_def
        ticks_add_def ticks_ms_def ticks_diff_def TICKS_PERIOD_def)
  have c: "0 < ticks_ms (sleep_ms (int (recv_wait ?inp)) (boot_state 1000))"
    by (simp add: ticks_ms_def sleep_ms_def boot_state_def TICKS_PERIOD_def)
  have d: "ticks_ms (sleep_ms (int (recv_wait ?inp)) (boot_state 1000)) + 10000 < TICKS_PERIOD"
    by (simp add: ticks_ms_def sleep_ms_def boot_state_def TICKS_PERIOD_def)
  from output_implies_deadline_preserved [OF a b c d] a b c d show ?thesis
    by simp
qed

section \<open>Exceptions of the handler\<close>

text \<open>
  Claim C1 says that no datagram makes an error escape the loop iteration. The handler
  catches only the parser's exception and the loop only \<^verbatim>\<open>OSError\<close>. An accepted
  \<^verbatim>\<open>buzz\<close> whose \<^verbatim>\<open>duration_ms\<close> is \<^verbatim>\<open>null\<close> raises \<^verbatim>\<open>TypeError\<close> in
  \<^verbatim>\<open>int\<close>; the iteration ends with that exception and so does the loop, whatever
  would have been received next. A payload that decodes to a list raises
  \<^verbatim>\<open>AttributeError\<close> at \<^verbatim>\<open>msg.get\<close> in the same way.
\<close>

theorem handler_exception_ends_loop:
  "loop_iter env
      \<lparr>pkt = Some (Some (JObj [(''cmd'', JStr ''buzz''), (''duration_ms'', JNull),
                               (''token'', JStr (TOKEN env))]), src),
       recv_wait = w, send_ok = tx\<rparr> s = Inl TypeError \<and>
   main_loop env
      (\<lparr>pkt = Some (Some (JObj [(''cmd'', JStr ''buzz''), (''duration_ms'', JNull),
                               (''token'', JStr (TOKEN env))]), src),
        recv_wait = w, send_ok = tx\<rparr> # inps) s = Inl TypeError \<and>
   loop_iter env \<lparr>pkt = Some (Some (JArr []), src), recv_wait = w, send_ok = tx\<rparr> s
     = Inl AttributeError"
  by (simp add: loop_iter_def handle_packet_def py_get_def py_get_default_def and_then_def)

section \<open>The broadcast address\<close>

lemma netmask_prefix_roundtrip:
  "\<forall>p \<in> set [0..<33]. prefix_from_ip_string (ip_int_from_prefix p) = Inr p"
  by code_simp

lemma netmask_accepted:
  assumes "p \<le> 32"
  shows "prefix_from_ip_string (ip_int_from_prefix p) = Inr p"
proof -
  from assms have "p \<in> set [0..<33]" by simp
  with netmask_prefix_roundtrip show ?thesis by blast
qed

text \<open>
  The other masks: a hostmask (0.0.0.255) is read as the netmask it inverts, and a mask
  that mixes zeroes and ones (255.0.255.0) is refused with \<^verbatim>\<open>ValueError\<close>.
\<close>

lemma calc_broadcast_other_masks:
  "calc_broadcast 3232257775 255 = Inr 3232257791 \<and>
   calc_broadcast 3232257775 4278255360 = Inl ValueError"
  by code_simp

text \<open>
  Claim C6 as stated gives the wrong arithmetic. For 192.168.86.239 with the mask
  255.255.255.0 (the netmask of prefix length 24) the controller computes
  192.168.86.255, while the address AND NOT mask, then OR mask, is 255.255.255.239.
\<close>

theorem spec_broadcast_counterexample:
  "calc_broadcast 3232257775 4294967040 = Inr 3232257791 \<and>
   spec_broadcast 3232257775 4294967040 = 4294967279 \<and>
   ip_int_from_prefix 24 = 4294967040"
  by code_simp

text \<open>
  Claim C6, amended. For every address and every subnet mask, that is the netmask of
  a prefix length from 0 to 32, the controller's broadcast address is the address AND
  mask, then OR NOT mask (on 32 bits): the network bits of the address with all host
  bits set.
\<close>

theorem calc_broadcast_netmask:
  assumes "p \<le> 32"
  shows "calc_broadcast ip (ip_int_from_prefix p)
           = Inr ((ip AND ip_int_from_prefix p) OR (ip_int_from_prefix p XOR ALL_ONES))"
  by (simp add: calc_broadcast_def netmask_accepted [OF assms] and_then_def Let_def)

theorem calc_broadcast_netmask_witness:
  "(24::nat) \<le> 32 \<and> ip_int_from_prefix 24 = 4294967040 \<and>
   calc_broadcast 3232257775 4294967040 = Inr 3232257791"
proof -
  have m: "ip_int_from_prefix 24 = 4294967040"
    by code_simp
  have v: "(3232257775 AND 4294967040) OR (4294967040 XOR ALL_ONES) = (3232257791::int)"
    by code_simp
  have h: "(24::nat) \<le> 32" by simp
  from calc_broadcast_netmask [OF h, of 3232257775] h m v show ?thesis
    by simp
qed


section \<open>Discovery\<close>







end
